theory Spec2Isabelle
  imports Complex_Main
begin

section \<open>Python values\<close>

text \<open>
  The two programs of the repository are \<^verbatim>\<open>STM_32/main.py\<close> (class \<^verbatim>\<open>OscilloscopeUI\<close>)
  and \<^verbatim>\<open>EPTscope.py\<close> (class \<^verbatim>\<open>EPTScope\<close>). Python floats are modelled by the real
  numbers they approximate: arithmetic is exact, rounding is not followed. The
  exceptions that arithmetic and indexing raise are branches of the model.
  Decoded text is a list of 8-bit characters (code points below 256).
\<close>

datatype py_error =
  IndexError | ZeroDivisionError | OverflowError | ValueError | OSError | NonFinite

text \<open>
  \<open>NonFinite\<close> is not an exception of Python: it marks the one place where numpy
  divides a float by zero and goes on with \<^verbatim>\<open>inf\<close> and \<^verbatim>\<open>nan\<close>, which the reals do
  not have; the model stops there.

  Python's \<^verbatim>\<open>a / b\<close> on two ints: \<^verbatim>\<open>ZeroDivisionError\<close> for a zero divisor, and
  \<^verbatim>\<open>OverflowError\<close> (integer division result too large for a float) when the
  quotient rounds to a magnitude of at least \<open>2 ^ 1024\<close>, that is from
  \<open>2 ^ 1024 - 2 ^ 970\<close> on.
\<close>

definition true_divide :: "int \<Rightarrow> int \<Rightarrow> py_error + real" where
  "true_divide a b =
     (if b = 0 then Inl ZeroDivisionError
      else if 2 ^ 1024 - 2 ^ 970 \<le> \<bar>real_of_int a / real_of_int b\<bar> then Inl OverflowError
      else Inr (real_of_int a / real_of_int b))"

subsection \<open>Text\<close>

text \<open>\<^verbatim>\<open>\d\<close> of the \<^verbatim>\<open>re\<close> module: below code point 256 the decimal digits are 0 to 9.\<close>

definition is_digit :: "char \<Rightarrow> bool" where
  "is_digit c \<longleftrightarrow> c \<in> set ''0123456789''"

text \<open>\<^verbatim>\<open>str.isspace\<close> below code point 256, by code point.\<close>

definition whitespace :: "char \<Rightarrow> bool" where
  "whitespace c \<longleftrightarrow> (of_char c :: nat) \<in> set [9, 10, 11, 12, 13, 28, 29, 30, 31, 32, 133, 160]"

text \<open>
  The maximal runs of characters that satisfy \<open>P\<close>, left to right; \<open>acc\<close> is the run
  being read.
\<close>

fun runs :: "(char \<Rightarrow> bool) \<Rightarrow> string \<Rightarrow> string \<Rightarrow> string list" where
  "runs P acc [] = (if acc = [] then [] else [acc])"
| "runs P acc (c # cs) =
     (if P c then runs P (acc @ [c]) cs
      else if acc = [] then runs P [] cs
      else acc # runs P [] cs)"

text \<open>\<^verbatim>\<open>re.findall(r"\d+", line)\<close>.\<close>

definition findall_digits :: "string \<Rightarrow> string list" where
  "findall_digits line = runs is_digit [] line"

text \<open>
  \<^verbatim>\<open>int(token)\<close> on a run of decimal digits. CPython (from 3.11, and the security
  releases of the older versions) refuses a text of more than 4300 digits with
  \<^verbatim>\<open>ValueError\<close>.
\<close>

definition digit_value :: "char \<Rightarrow> int" where
  "digit_value c = int (of_char c) - 48"

definition int_of_digits :: "string \<Rightarrow> int" where
  "int_of_digits token = foldl (\<lambda>n c. 10 * n + digit_value c) 0 token"

definition max_str_digits :: nat where
  "max_str_digits = 4300"

text \<open>\<^verbatim>\<open>str.strip()\<close> and \<^verbatim>\<open>str.split()\<close> with no argument, \<^verbatim>\<open>str.endswith\<close>.\<close>

definition str_strip :: "string \<Rightarrow> string" where
  "str_strip s = rev (dropWhile whitespace (rev (dropWhile whitespace s)))"






section \<open>The oscilloscope of STM_32/main.py\<close>

record serial_port =
  port :: string
  baudrate :: nat
  is_open :: bool

record oscilloscope =
  ser :: "serial_port option"
  data :: "real list"
  timestamps :: "real list"
  is_running :: bool
  timer_active :: bool
  start_btn_enabled :: bool
  pause_btn_enabled :: bool
  com_select_enabled :: bool
  baud_select_enabled :: bool
  readers_started :: nat

text \<open>
  What an operation shows or writes: the message boxes it opens, the lines it prints,
  the curve it hands to the plot and the file it writes. Neither program reports in
  any other way.
\<close>

datatype notice =
    WarnNoSignal
  | WarnNoPortAvailable
  | WarnNotEnoughData
  | WarnNoData
  | InfoStats real real real
  | PrintFailedToOpen
  | PrintInvalidData
  | PrintSerialError
  | PrintVoltage real
  | PrintScreenCleared
  | PrintSamplingRate real
  | PrintExported
  | PrintLoaded
  | PrintLoadError
  | PrintUnsupportedFormat
  | PlotCurve "real list" "real list"
  | FileWritten string string
  | ImageExported string

text \<open>
  An operation returns the state it leaves, what it showed, and the exception that
  ended it when one did that no \<^verbatim>\<open>except\<close> clause caught.
\<close>

type_synonym 's run = "'s \<times> notice list \<times> py_error option"

text \<open>The state \<^verbatim>\<open>__init__\<close> leaves.\<close>

definition init_state :: oscilloscope where
  "init_state =
     \<lparr>ser = None, data = [], timestamps = [], is_running = False, timer_active = False,
      start_btn_enabled = True, pause_btn_enabled = True, com_select_enabled = True,
      baud_select_enabled = True, readers_started = 0\<rparr>"

subsection \<open>Ingestion: \<^verbatim>\<open>read_data\<close>\<close>

definition max_data_points :: nat where
  "max_data_points = 1000"

definition vref :: real where
  "vref = 33 / 10"

definition max_adc_value :: int where
  "max_adc_value = 4095"

text \<open>
  The block under \<^verbatim>\<open>data_lock\<close>: both lists grow by one, and when \<^verbatim>\<open>data\<close> is longer
  than \<^verbatim>\<open>max_data_points\<close> both lose their first entry. After the two appends neither
  list is empty, so \<^verbatim>\<open>pop(0)\<close> is \<open>tl\<close>.
\<close>

definition append_sample :: "real \<Rightarrow> real \<Rightarrow> oscilloscope \<Rightarrow> oscilloscope" where
  "append_sample timestamp voltage s =
     (let s1 = s\<lparr>timestamps := timestamps s @ [timestamp], data := data s @ [voltage]\<rparr>
      in if length (data s1) > max_data_points
         then s1\<lparr>timestamps := tl (timestamps s1), data := tl (data s1)\<rparr>
         else s1)"

text \<open>What \<^verbatim>\<open>self.ser.readline().decode('utf-8')\<close> gives in one pass of the loop.\<close>

datatype reading = Line string | Undecodable | PortFailure

text \<open>
  One pass of the \<^verbatim>\<open>while self.is_running\<close> loop; \<open>now\<close> is the clock reading
  \<^verbatim>\<open>(current_time - start_time).total_seconds()\<close>. The loop catches \<^verbatim>\<open>ValueError\<close>
  (\<^verbatim>\<open>UnicodeDecodeError\<close> is one, and so is the refusal of \<^verbatim>\<open>int\<close>, which
  \<^verbatim>\<open>list(map(int, ...))\<close> meets at any run of the frame) and
  \<^verbatim>\<open>serial.SerialException\<close>; any other exception ends the worker thread.
\<close>

definition read_iteration :: "reading \<Rightarrow> real \<Rightarrow> oscilloscope \<Rightarrow> oscilloscope run" where
  "read_iteration r now s =
     (if \<not> is_running s then (s, [], None)
      else case ser s of
        None \<Rightarrow> (s, [], None)
      | Some h \<Rightarrow>
          if \<not> is_open h then (s, [], None)
          else (case r of
            PortFailure \<Rightarrow>
              (s\<lparr>is_running := False, timer_active := False,
                 ser := Some (h\<lparr>is_open := False\<rparr>)\<rparr>, [PrintSerialError], None)
          | Undecodable \<Rightarrow> (s, [PrintInvalidData], None)
          | Line raw \<Rightarrow>
              (let tokens = findall_digits (str_strip raw)
               in if list_ex (\<lambda>token. max_str_digits < length token) tokens
                  then (s, [PrintInvalidData], None)
                  else (let numbers = map int_of_digits tokens
                        in if numbers = [] then (s, [], None)
                           else (case true_divide (last numbers) max_adc_value of
                             Inl e \<Rightarrow> (s, [], Some e)
                           | Inr q \<Rightarrow>
                               (let voltage = q * vref - 6 / 10
                                in (append_sample now voltage s, [PrintVoltage voltage], None)))))))"

text \<open>
  The loop over the readings the port delivers, each with its clock reading; it ends
  with the readings, or at the exception that ends the thread.
\<close>

fun read_data :: "(reading \<times> real) list \<Rightarrow> oscilloscope \<Rightarrow> oscilloscope \<times> py_error option" where
  "read_data [] s = (s, None)"
| "read_data ((r, now) # rest) s =
     (case read_iteration r now s of
        (s', _, Some e) \<Rightarrow> (s', Some e)
      | (s', _, None) \<Rightarrow> read_data rest s')"

subsection \<open>Acquisition control\<close>

text \<open>
  \<^verbatim>\<open>start_signal\<close>: \<open>com_port\<close> and \<open>baud_rate\<close> are the two selections, \<open>port_opens\<close>
  says whether \<^verbatim>\<open>serial.Serial(...)\<close> returns or raises \<^verbatim>\<open>SerialException\<close>.
\<close>

definition start_signal :: "string \<Rightarrow> nat \<Rightarrow> bool \<Rightarrow> oscilloscope \<Rightarrow> oscilloscope run" where
  "start_signal com_port baud_rate port_opens s =
     (if com_port = ''No ports available'' then (s, [WarnNoPortAvailable], None)
      else if port_opens
        then (s\<lparr>ser := Some \<lparr>port = com_port, baudrate = baud_rate, is_open = True\<rparr>,
                is_running := True, data := [], timestamps := [], timer_active := True,
                readers_started := Suc (readers_started s)\<rparr>, [], None)
        else (s, [PrintFailedToOpen], None))"

definition pause_signal :: "oscilloscope \<Rightarrow> oscilloscope run" where
  "pause_signal s =
     (s\<lparr>is_running := False, timer_active := False,
        ser := (case ser s of
                  None \<Rightarrow> None
                | Some h \<Rightarrow> Some (if is_open h then h\<lparr>is_open := False\<rparr> else h)),
        start_btn_enabled := True, pause_btn_enabled := False,
        com_select_enabled := True, baud_select_enabled := True\<rparr>, [], None)"


subsection \<open>Signal processing\<close>

text \<open>
  \<^verbatim>\<open>np.convolve(a, v, mode='valid')\<close>: numpy swaps the two arguments when the second is
  the longer, refuses an empty one, and returns the sums over the positions where the
  shorter lies fully inside the longer.
\<close>

definition convolve_valid :: "real list \<Rightarrow> real list \<Rightarrow> py_error + real list" where
  "convolve_valid a v =
     (let a' = (if length v > length a then v else a);
          v' = (if length v > length a then a else v)
      in if a' = [] then Inl ValueError
         else if v' = [] then Inl ValueError
         else Inr (map (\<lambda>k. \<Sum>j\<leftarrow>[0..<length v']. a' ! (k + (length v' - 1 - j)) * v' ! j)
                    [0..<length a' - length v' + 1]))"

definition moving_average :: "real list \<Rightarrow> nat \<Rightarrow> py_error + real list" where
  "moving_average xs window_size =
     convolve_valid xs (replicate window_size (1 / real window_size))"

text \<open>
  \<^verbatim>\<open>update_plot\<close>, the timer's slot: the curve handed to \<^verbatim>\<open>setData\<close>. The axis ranges set
  after it are not followed.
\<close>

definition update_plot :: "oscilloscope \<Rightarrow> oscilloscope run" where
  "update_plot s =
     (if data s \<noteq> [] \<and> timestamps s \<noteq> []
      then (let min_length = min (length (data s)) (length (timestamps s));
                trimmed_data = take min_length (data s);
                trimmed_timestamps = take min_length (timestamps s)
            in case moving_average trimmed_data 5 of
                 Inl e \<Rightarrow> (s, [], Some e)
               | Inr smoothed_data \<Rightarrow>
                   (s, [PlotCurve (take (length smoothed_data) trimmed_timestamps) smoothed_data],
                    None))
      else (s, [], None))"










text \<open>
  \<^verbatim>\<open>scipy.fftpack.fft\<close>, the discrete Fourier transform, and \<^verbatim>\<open>np.linspace\<close> with its
  end point.
\<close>

definition fft :: "real list \<Rightarrow> complex list" where
  "fft x =
     map (\<lambda>k. \<Sum>j\<leftarrow>[0..<length x].
                of_real (x ! j) * cis (- (2 * pi * real j * real k / real (length x))))
       [0..<length x]"

definition linspace :: "real \<Rightarrow> real \<Rightarrow> nat \<Rightarrow> real list" where
  "linspace start stop num =
     (if num = 1 then [start]
      else map (\<lambda>i. start + real i * ((stop - start) / real (num - 1))) [0..<num])"

text \<open>
  \<^verbatim>\<open>compute_fft\<close>. \<^verbatim>\<open>self.timestamps[1]\<close> raises \<^verbatim>\<open>IndexError\<close> on a list shorter than
  two, and \<^verbatim>\<open>1.0 / (2.0 * T)\<close> raises \<^verbatim>\<open>ZeroDivisionError\<close> when \<^verbatim>\<open>T\<close> is zero.
\<close>

definition compute_fft :: "oscilloscope \<Rightarrow> oscilloscope run" where
  "compute_fft s =
     (if length (data s) > 0
      then (if length (timestamps s) < 2 then (s, [], Some IndexError)
            else (let N = length (data s);
                      T = timestamps s ! 1 - timestamps s ! 0;
                      yf = fft (data s)
                  in if T = 0 then (s, [], Some ZeroDivisionError)
                     else (let xf = linspace 0 (1 / (2 * T)) (N div 2)
                           in (s, [PlotCurve xf (map (\<lambda>y. 2 / real N * cmod y) (take (N div 2) yf))],
                               None))))
      else (s, [], None))"

subsection \<open>Export and import\<close>





section \<open>The scope of EPTscope.py\<close>

record eptscope =
  buffer_t :: "real list"
  buffer_y :: "real list"
  trigger_line :: "real option"
  recording :: bool
  running :: bool

text \<open>\<^verbatim>\<open>np.fft.rfft\<close> and \<^verbatim>\<open>np.fft.rfftfreq\<close>: the bins 0 to \<open>n div 2\<close>.\<close>

definition rfft :: "real list \<Rightarrow> complex list" where
  "rfft x = take (length x div 2 + 1) (fft x)"

definition rfftfreq :: "nat \<Rightarrow> real \<Rightarrow> py_error + real list" where
  "rfftfreq n d =
     (if real n * d = 0 then Inl ZeroDivisionError
      else Inr (map (\<lambda>k. real k * (1 / (real n * d))) [0..<n div 2 + 1]))"

definition perform_fft :: "eptscope \<Rightarrow> eptscope run" where
  "perform_fft e =
     (if length (buffer_y e) < 2 then (e, [WarnNotEnoughData], None)
      else (let Y = map cmod (rfft (buffer_y e))
            in if length (buffer_t e) < 2 then (e, [], Some IndexError)
               else (case rfftfreq (length (buffer_y e)) ((buffer_t e ! 1 - buffer_t e ! 0) / 1000) of
                       Inl err \<Rightarrow> (e, [], Some err)
                     | Inr X \<Rightarrow> (e, [PlotCurve X Y], None))))"



section \<open>The sample buffer\<close>

lemma append_sample_data:
  "data (append_sample t v s) =
     (if length (data s) < max_data_points then data s @ [v] else tl (data s @ [v]))"
  by (simp add: append_sample_def Let_def)

lemma append_sample_timestamps:
  "timestamps (append_sample t v s) =
     (if length (data s) < max_data_points then timestamps s @ [t] else tl (timestamps s @ [t]))"
  by (simp add: append_sample_def Let_def)

lemma window_step:
  assumes "length xs \<le> n"
  shows "(if length xs < n then xs @ [x] else tl (xs @ [x])) = drop (length (xs @ [x]) - n) (xs @ [x])"
proof (cases "length xs < n")
  case True
  then show ?thesis by simp
next
  case False
  with assms have "length (xs @ [x]) - n = Suc 0" by simp
  moreover have "drop (Suc 0) (xs @ [x]) = tl (xs @ [x])"
    by (simp only: drop_Suc drop_0)
  ultimately show ?thesis using False by (simp only: if_False)
qed

lemma window_append:
  "drop (length (drop (length ws - n) ws @ zs) - n) (drop (length ws - n) ws @ zs)
     = drop (length (ws @ zs) - n) (ws @ zs)"
proof (cases "length ws \<le> n")
  case True
  then show ?thesis by simp
next
  case False
  then have "length (drop (length ws - n) ws) = n" by simp
  then show ?thesis using False by (simp add: add.commute)
qed

lemma appends_window:
  assumes "length (data s) \<le> max_data_points" and "length (timestamps s) = length (data s)"
  shows "data (foldl (\<lambda>s (t, v). append_sample t v s) s xs) =
           drop (length (data s @ map snd xs) - max_data_points) (data s @ map snd xs)
       \<and> timestamps (foldl (\<lambda>s (t, v). append_sample t v s) s xs) =
           drop (length (timestamps s @ map fst xs) - max_data_points) (timestamps s @ map fst xs)"
  using assms
proof (induction xs arbitrary: s)
  case Nil
  then show ?case by simp
next
  case (Cons x xs)
  obtain t v where x: "x = (t, v)" by (cases x)
  let ?s = "append_sample t v s"
  let ?n = max_data_points
  have d: "data ?s = drop (length (data s @ [v]) - ?n) (data s @ [v])"
    using window_step [OF Cons.prems(1)] by (simp only: append_sample_data)
  have "length (timestamps s) \<le> ?n"
    using Cons.prems by simp
  then have ts: "timestamps ?s = drop (length (timestamps s @ [t]) - ?n) (timestamps s @ [t])"
    using window_step [of "timestamps s" ?n t] Cons.prems(2)
    by (simp only: append_sample_timestamps)
  have len: "length (data ?s) \<le> ?n" "length (timestamps ?s) = length (data ?s)"
    using Cons.prems by (simp_all add: d ts)
  have "data (foldl (\<lambda>s (t, v). append_sample t v s) ?s xs)
      = drop (length ((data s @ [v]) @ map snd xs) - ?n) ((data s @ [v]) @ map snd xs)"
    using Cons.IH [OF len] by (simp only: d window_append)
  moreover have "timestamps (foldl (\<lambda>s (t, v). append_sample t v s) ?s xs)
      = drop (length ((timestamps s @ [t]) @ map fst xs) - ?n) ((timestamps s @ [t]) @ map fst xs)"
    using Cons.IH [OF len] by (simp only: ts window_append)
  ultimately show ?case
    by (simp add: x)
qed

text \<open>
  C1. Starting from an empty buffer (as \<^verbatim>\<open>start_signal\<close> and \<^verbatim>\<open>clear_screen\<close> leave it),
  after any sequence of appends the stored values and the stored timestamps are at
  most 1000 long and are exactly the last 1000 of the appended samples, in the order
  they were appended: after \<open>1000 + k\<close> appends the first \<open>k\<close> samples are gone and the
  others remain.
\<close>

theorem buffer_sliding_window:
  "length (data (foldl (\<lambda>s (t, v). append_sample t v s) (s\<lparr>timestamps := [], data := []\<rparr>) xs)) \<le> 1000
   \<and> length (timestamps (foldl (\<lambda>s (t, v). append_sample t v s) (s\<lparr>timestamps := [], data := []\<rparr>) xs)) \<le> 1000
   \<and> data (foldl (\<lambda>s (t, v). append_sample t v s) (s\<lparr>timestamps := [], data := []\<rparr>) xs)
       = drop (length xs - 1000) (map snd xs)
   \<and> timestamps (foldl (\<lambda>s (t, v). append_sample t v s) (s\<lparr>timestamps := [], data := []\<rparr>) xs)
       = drop (length xs - 1000) (map fst xs)"
  using appends_window [of "s\<lparr>timestamps := [], data := []\<rparr>" xs]
  by (simp add: max_data_points_def)

section \<open>Ingestion\<close>

lemma runs_all:
  "list_all P cs \<Longrightarrow> runs P acc cs = (if acc @ cs = [] then [] else [acc @ cs])"
  by (induction cs arbitrary: acc) auto

lemma int_of_digits_nines_from:
  "foldl (\<lambda>n c. 10 * n + digit_value c) a (replicate k (CHR ''9'')) = (a + 1) * 10 ^ k - 1"
  by (induction k arbitrary: a) (simp_all add: digit_value_def algebra_simps)

lemma int_of_digits_nines: "int_of_digits (replicate k (CHR ''9'')) = 10 ^ k - 1"
  by (simp add: int_of_digits_def int_of_digits_nines_from)

lemma str_strip_nines: "str_strip (replicate k (CHR ''9'')) = replicate k (CHR ''9'')"
proof -
  have "dropWhile whitespace (replicate k (CHR ''9'')) = replicate k (CHR ''9'')"
    by (cases k) (simp_all add: whitespace_def)
  then show ?thesis by (simp add: str_strip_def)
qed

lemma findall_digits_nines:
  "0 < k \<Longrightarrow> findall_digits (replicate k (CHR ''9'')) = [replicate k (CHR ''9'')]"
  by (simp add: findall_digits_def runs_all list_all_iff is_digit_def)




text \<open>
  Between the two lies a frame of four hundred nines: \<^verbatim>\<open>int\<close> accepts the run, and
  \<^verbatim>\<open>adc_value / max_adc_value\<close> raises \<^verbatim>\<open>OverflowError\<close>, which the loop does not catch.
  The reader thread ends, the buffer as it was.
\<close>

lemma long_digit_run_ends_reader:
  "read_iteration (Line (replicate 400 (CHR ''9''))) 1
     (init_state\<lparr>ser := Some \<lparr>port = ''COM3'', baudrate = 115200, is_open = True\<rparr>, is_running := True\<rparr>)
   = (init_state\<lparr>ser := Some \<lparr>port = ''COM3'', baudrate = 115200, is_open = True\<rparr>, is_running := True\<rparr>,
      [], Some OverflowError)"
proof -
  have "true_divide (10 ^ 400 - 1) max_adc_value = Inl OverflowError"
    by (simp add: true_divide_def max_adc_value_def)
  then show ?thesis
    by (simp add: read_iteration_def init_state_def str_strip_nines findall_digits_nines
        int_of_digits_nines max_str_digits_def Let_def)
qed

section \<open>Acquisition control\<close>

text \<open>
  C5, as the code has it. \<^verbatim>\<open>start_signal\<close> empties the buffer whenever it opens the
  port, after a pause as well as on a first start; the buffer is kept only when no
  port is available or when the port fails to open.
\<close>

theorem start_signal_resets_buffer:
  "data (fst (start_signal com_port baud_rate port_opens s))
     = (if com_port = ''No ports available'' then data s else if port_opens then [] else data s)
   \<and> timestamps (fst (start_signal com_port baud_rate port_opens s))
     = (if com_port = ''No ports available'' then timestamps s else if port_opens then [] else timestamps s)"
  by (simp add: start_signal_def)

text \<open>
  C5 as stated fails: start, one sample read, pause, start again. The pause leaves
  the sample in the buffer and the second start removes it.
\<close>

theorem start_after_pause_clears_history:
  "data (fst (pause_signal (fst (read_iteration (Line ''2048'') 1
           (fst (start_signal ''COM3'' 115200 True init_state)))))) = [2048 / 4095 * (33 / 10) - 6 / 10]
   \<and> data (fst (start_signal ''COM3'' 115200 True
        (fst (pause_signal (fst (read_iteration (Line ''2048'') 1
           (fst (start_signal ''COM3'' 115200 True init_state)))))))) = []"
  by (simp add: start_signal_def pause_signal_def read_iteration_def init_state_def findall_digits_def
      is_digit_def str_strip_def whitespace_def int_of_digits_def digit_value_def true_divide_def
      max_adc_value_def vref_def append_sample_def max_data_points_def max_str_digits_def Let_def)

text \<open>
  C9, as the code has it. A second \<^verbatim>\<open>pause_signal\<close> leaves the state the first one left
  and neither call reports anything. A second \<^verbatim>\<open>start_signal\<close> after one that opened
  the port leaves the port handle, the running flag and the (empty) buffer as they
  were, but it is not refused: it tries the port again, and reports nothing when the
  port opens, the failure to open when it does not, the missing port when there is
  none; when the port opens it starts one more reader thread.
\<close>

theorem pause_and_start_repeated:
  "fst (pause_signal (fst (pause_signal s))) = fst (pause_signal s)
   \<and> snd (pause_signal s) = ([], None)
   \<and> snd (pause_signal (fst (pause_signal s))) = ([], None)
   \<and> ser (fst (start_signal p b again (fst (start_signal p b True s)))) = ser (fst (start_signal p b True s))
   \<and> is_running (fst (start_signal p b again (fst (start_signal p b True s))))
       = is_running (fst (start_signal p b True s))
   \<and> data (fst (start_signal p b again (fst (start_signal p b True s)))) = data (fst (start_signal p b True s))
   \<and> timestamps (fst (start_signal p b again (fst (start_signal p b True s))))
       = timestamps (fst (start_signal p b True s))
   \<and> snd (start_signal p b again (fst (start_signal p b True s)))
       = (if p = ''No ports available'' then [WarnNoPortAvailable]
          else if again then [] else [PrintFailedToOpen], None)
   \<and> readers_started (fst (start_signal p b again (fst (start_signal p b True s))))
       = (if p = ''No ports available'' then readers_started s
          else if again then readers_started s + 2 else readers_started s + 1)"
  by (simp add: pause_signal_def start_signal_def split: option.splits)

text \<open>
  C9 as stated fails: after a start, the second of two pauses reports nothing, and so
  does the second of two starts, which starts a second reader thread.
\<close>

theorem repeated_calls_report_nothing:
  "snd (pause_signal (fst (pause_signal (fst (start_signal ''COM3'' 115200 True init_state))))) = ([], None)
   \<and> snd (start_signal ''COM3'' 115200 True (fst (start_signal ''COM3'' 115200 True init_state))) = ([], None)
   \<and> readers_started (fst (start_signal ''COM3'' 115200 True (fst (start_signal ''COM3'' 115200 True init_state)))) = 2"
  by (simp add: pause_signal_def start_signal_def init_state_def)

section \<open>Signal processing\<close>

lemma sum_list_rev_index:
  "(\<Sum>j\<leftarrow>[0..<w]. f (w - 1 - j)) = (\<Sum>j\<leftarrow>[0..<w]. (f j :: real))"
proof -
  have "(\<Sum>j\<leftarrow>[0..<w]. f (w - 1 - j)) = (\<Sum>j<w. f (w - Suc j))"
    by (simp add: interv_sum_list_conv_sum_set_nat atLeast0LessThan)
  also have "\<dots> = (\<Sum>j<w. f j)"
    by (rule sum.nat_diff_reindex)
  also have "\<dots> = (\<Sum>j\<leftarrow>[0..<w]. f j)"
    by (simp add: interv_sum_list_conv_sum_set_nat atLeast0LessThan)
  finally show ?thesis .
qed

lemma sum_list_window:
  assumes "k + w \<le> length xs"
  shows "(\<Sum>j\<leftarrow>[0..<w]. xs ! (k + j)) = sum_list (take w (drop k (xs :: real list)))"
proof -
  have len: "length (take w (drop k xs)) = w"
    using assms by simp
  have "sum_list (take w (drop k xs)) = (\<Sum>j = 0..<w. take w (drop k xs) ! j)"
    by (subst sum_list_sum_nth) (simp only: len)
  also have "\<dots> = (\<Sum>j = 0..<w. xs ! (k + j))"
    using assms by (intro sum.cong) simp_all
  finally show ?thesis
    by (simp add: interv_sum_list_conv_sum_set_nat)
qed

text \<open>
  With a window \<open>w\<close> that is not zero and not longer than the \<open>n\<close> values,
  \<^verbatim>\<open>moving_average\<close> gives \<open>n - w + 1\<close> values, the one at position \<open>i\<close> being the
  mean of the \<open>w\<close> values from position \<open>i\<close> on.
\<close>

theorem moving_average_valid:
  assumes "0 < w" and "w \<le> length xs"
  shows "moving_average xs w
           = Inr (map (\<lambda>i. sum_list (take w (drop i xs)) / real w) [0..<length xs - w + 1])"
proof -
  have ne: "xs \<noteq> []" using assms by auto
  have "(\<Sum>j\<leftarrow>[0..<w]. xs ! (k + (w - 1 - j)) * replicate w (1 / real w) ! j)
          = sum_list (take w (drop k xs)) / real w" if "k \<in> set [0..<length xs - w + 1]" for k
  proof -
    have "(\<Sum>j\<leftarrow>[0..<w]. xs ! (k + (w - 1 - j)) * replicate w (1 / real w) ! j)
            = (\<Sum>j\<leftarrow>[0..<w]. xs ! (k + (w - 1 - j)) * (1 / real w))"
      by (rule arg_cong [where f = sum_list], rule map_cong) simp_all
    also have "\<dots> = (\<Sum>j\<leftarrow>[0..<w]. xs ! (k + (w - 1 - j))) * (1 / real w)"
      by (simp only: sum_list_mult_const)
    also have "(\<Sum>j\<leftarrow>[0..<w]. xs ! (k + (w - 1 - j))) = (\<Sum>j\<leftarrow>[0..<w]. xs ! (k + j))"
      by (rule sum_list_rev_index [of "\<lambda>j. xs ! (k + j)" w])
    also have "\<dots> = sum_list (take w (drop k xs))"
    proof (rule sum_list_window)
      from that have "k \<le> length xs - w" by auto
      with assms show "k + w \<le> length xs" by arith
    qed
    finally show ?thesis by simp
  qed
  then have "map (\<lambda>k. \<Sum>j\<leftarrow>[0..<w]. xs ! (k + (w - 1 - j)) * replicate w (1 / real w) ! j)
               [0..<length xs - w + 1]
             = map (\<lambda>i. sum_list (take w (drop i xs)) / real w) [0..<length xs - w + 1]"
    by (intro map_cong) simp_all
  then show ?thesis
    using assms ne by (simp add: moving_average_def convolve_valid_def Let_def)
qed

theorem moving_average_valid_witness:
  "moving_average [1, 2, 3] 2 = Inr [3 / 2, 5 / 2]"
  using moving_average_valid [of 2 "[1, 2, 3]"]
  by (simp add: upt_rec_numeral eval_nat_numeral)

text \<open>
  With a window longer than the input, the input not empty, numpy swaps the two
  arguments: \<^verbatim>\<open>moving_average\<close> gives \<open>w - n + 1\<close> values, each the sum of the input
  divided by \<open>w\<close>.
\<close>

theorem moving_average_short:
  assumes "xs \<noteq> []" and "length xs < w"
  shows "moving_average xs w = Inr (replicate (w - length xs + 1) (sum_list xs / real w))"
proof -
  let ?n = "length xs"
  have "(\<Sum>j\<leftarrow>[0..<?n]. replicate w (1 / real w) ! (k + (?n - 1 - j)) * xs ! j) = sum_list xs / real w"
    if "k \<in> set [0..<w - ?n + 1]" for k
  proof -
    have "(\<Sum>j\<leftarrow>[0..<?n]. replicate w (1 / real w) ! (k + (?n - 1 - j)) * xs ! j)
            = (\<Sum>j\<leftarrow>[0..<?n]. (1 / real w) * xs ! j)"
      using that assms by (intro arg_cong [where f = sum_list] map_cong) auto
    also have "\<dots> = (1 / real w) * (\<Sum>j\<leftarrow>[0..<?n]. xs ! j)"
      by (simp only: sum_list_const_mult)
    also have "(\<Sum>j\<leftarrow>[0..<?n]. xs ! j) = sum_list xs"
      by (simp add: map_nth)
    finally show ?thesis by simp
  qed
  then have "map (\<lambda>k. \<Sum>j\<leftarrow>[0..<?n]. replicate w (1 / real w) ! (k + (?n - 1 - j)) * xs ! j) [0..<w - ?n + 1]
             = map (\<lambda>k. sum_list xs / real w) [0..<w - ?n + 1]"
    by (intro map_cong) simp_all
  also have "\<dots> = replicate (w - ?n + 1) (sum_list xs / real w)"
    by (simp add: map_replicate_const)
  finally show ?thesis
    using assms by (simp add: moving_average_def convolve_valid_def Let_def)
qed

theorem moving_average_short_witness:
  "moving_average [1, 2] 4 = Inr [3 / 4, 3 / 4, 3 / 4]"
  using moving_average_short [of "[1, 2]" 4]
  by (simp add: eval_nat_numeral)

text \<open>
  C2, at one sample and the window of five that \<^verbatim>\<open>update_plot\<close> uses: the window is
  longer than the input and the result is not empty. It has five values, and
  \<^verbatim>\<open>update_plot\<close> hands one timestamp and five values to the plot.
\<close>

theorem moving_average_window_longer:
  "moving_average [1] 5 = Inr [1 / 5, 1 / 5, 1 / 5, 1 / 5, 1 / 5]
   \<and> update_plot (init_state\<lparr>data := [1], timestamps := [0]\<rparr>)
       = (init_state\<lparr>data := [1], timestamps := [0]\<rparr>, [PlotCurve [0] [1 / 5, 1 / 5, 1 / 5, 1 / 5, 1 / 5]], None)"
  by (simp add: update_plot_def init_state_def moving_average_def convolve_valid_def Let_def
      upt_rec_numeral eval_nat_numeral)

text \<open>
  C6, at a buffer of one sample: \<^verbatim>\<open>compute_fft\<close> tests for a non-empty buffer only,
  reads \<^verbatim>\<open>self.timestamps[1]\<close> and ends with \<^verbatim>\<open>IndexError\<close>; on an empty buffer it returns
  without a report. \<^verbatim>\<open>perform_fft\<close> of the other program has the test for two samples.
\<close>

theorem compute_fft_single_sample:
  "compute_fft (init_state\<lparr>data := [1], timestamps := [0]\<rparr>)
     = (init_state\<lparr>data := [1], timestamps := [0]\<rparr>, [], Some IndexError)
   \<and> compute_fft init_state = (init_state, [], None)"
  by (simp add: compute_fft_def init_state_def)

text \<open>
  \<^verbatim>\<open>perform_fft\<close> of \<^verbatim>\<open>EPTscope.py\<close> on fewer than two values warns that there is not
  enough data, computes nothing and leaves the state as it was.
\<close>

theorem perform_fft_guard:
  "length (buffer_y e) < 2 \<Longrightarrow> perform_fft e = (e, [WarnNotEnoughData], None)"
  by (simp add: perform_fft_def)

theorem perform_fft_guard_witness:
  "perform_fft \<lparr>buffer_t = [0], buffer_y = [1], trigger_line = None, recording = False, running = True\<rparr>
     = (\<lparr>buffer_t = [0], buffer_y = [1], trigger_line = None, recording = False, running = True\<rparr>,
        [WarnNotEnoughData], None)"
  using perform_fft_guard
    [of "\<lparr>buffer_t = [0], buffer_y = [1], trigger_line = None, recording = False, running = True\<rparr>"]
  by simp








lemma fft_nth:
  "k < length x \<Longrightarrow>
   fft x ! k = (\<Sum>j\<leftarrow>[0..<length x]. of_real (x ! j) * cis (- (2 * pi * real j * real k / real (length x))))"
  by (simp add: fft_def)

lemma sum_list_of_real: "(\<Sum>j\<leftarrow>js. complex_of_real (f j)) = of_real (\<Sum>j\<leftarrow>js. f j)"
  by (induction js) simp_all

lemma fft_dc: "x \<noteq> [] \<Longrightarrow> fft x ! 0 = of_real (sum_list x)"
proof -
  assume "x \<noteq> []"
  then have "fft x ! 0 = (\<Sum>j\<leftarrow>[0..<length x]. of_real (x ! j))"
    by (simp add: fft_nth)
  also have "\<dots> = of_real (\<Sum>j\<leftarrow>[0..<length x]. x ! j)"
    by (rule sum_list_of_real)
  finally show ?thesis by (simp add: map_nth)
qed

text \<open>
  With the first two timestamps equal, \<^verbatim>\<open>1.0 / (2.0 * T)\<close> raises \<^verbatim>\<open>ZeroDivisionError\<close>.
\<close>

lemma compute_fft_equal_timestamps:
  assumes "data s \<noteq> []" and "2 \<le> length (timestamps s)" and "timestamps s ! 1 = timestamps s ! 0"
  shows "compute_fft s = (s, [], Some ZeroDivisionError)"
proof -
  have "\<not> length (timestamps s) < 2" using assms(2) by simp
  then show ?thesis using assms(1,3) by (simp add: compute_fft_def Let_def)
qed

text \<open>
  C7, as the code has it. For a buffer of \<open>n\<close> values, \<open>n\<close> at least two, and \<open>T\<close> the
  difference of the first two timestamps, not zero: \<^verbatim>\<open>compute_fft\<close> plots the bins 0
  to \<open>n div 2 - 1\<close>, the magnitude of every bin scaled by \<open>2 / n\<close>, the bin at
  frequency zero as well, against \<open>n div 2\<close> frequencies spread evenly from 0 to
  \<open>1 / (2 T)\<close>, ends included, so \<open>1 / (2 T (n div 2 - 1))\<close> apart (the one frequency
  0 when \<open>n div 2\<close> is 1). The bin at frequency zero has the magnitude of the sum of
  the values.
\<close>

theorem compute_fft_spectrum:
  assumes "2 \<le> length (data s)" and "2 \<le> length (timestamps s)"
    and "timestamps s ! 1 \<noteq> timestamps s ! 0"
  shows "compute_fft s =
           (s, [PlotCurve
                  (map (\<lambda>k. if length (data s) div 2 = 1 then 0
                             else real k * (1 / (2 * (timestamps s ! 1 - timestamps s ! 0))
                                            / real (length (data s) div 2 - 1)))
                     [0..<length (data s) div 2])
                  (map (\<lambda>k. 2 / real (length (data s)) * cmod (fft (data s) ! k))
                     [0..<length (data s) div 2])], None)
       \<and> cmod (fft (data s) ! 0) = \<bar>sum_list (data s)\<bar>"
proof (intro conjI)
  let ?n = "length (data s)"
  let ?T = "timestamps s ! 1 - timestamps s ! 0"
  have pos: "0 < ?n" and ts: "\<not> length (timestamps s) < 2" and T: "?T \<noteq> 0"
    using assms by auto
  have len: "length (fft (data s)) = ?n" by (simp add: fft_def)
  have mags: "map (\<lambda>y. 2 / real ?n * cmod y) (take (?n div 2) (fft (data s)))
                = map (\<lambda>k. 2 / real ?n * cmod (fft (data s) ! k)) [0..<?n div 2]"
    by (rule nth_equalityI) (simp_all add: len)
  have xf: "linspace 0 (1 / (2 * ?T)) (?n div 2)
              = map (\<lambda>k. if ?n div 2 = 1 then 0 else real k * (1 / (2 * ?T) / real (?n div 2 - 1)))
                  [0..<?n div 2]"
    by (rule nth_equalityI) (simp_all add: linspace_def)
  show "compute_fft s =
             (s, [PlotCurve
                    (map (\<lambda>k. if ?n div 2 = 1 then 0 else real k * (1 / (2 * ?T) / real (?n div 2 - 1)))
                       [0..<?n div 2])
                    (map (\<lambda>k. 2 / real ?n * cmod (fft (data s) ! k)) [0..<?n div 2])], None)"
    unfolding compute_fft_def Let_def mags xf using pos ts T by (simp only: if_True if_False)
  have "data s \<noteq> []" using pos by auto
  then show "cmod (fft (data s) ! 0) = \<bar>sum_list (data s)\<bar>"
    by (simp add: fft_dc)
qed

theorem compute_fft_spectrum_witness:
  "2 \<le> length (data (init_state\<lparr>data := [1, 3], timestamps := [0, 2]\<rparr>))
   \<and> 2 \<le> length (timestamps (init_state\<lparr>data := [1, 3], timestamps := [0, 2]\<rparr>))
   \<and> timestamps (init_state\<lparr>data := [1, 3], timestamps := [0, 2]\<rparr>) ! 1 = 2
   \<and> timestamps (init_state\<lparr>data := [1, 3], timestamps := [0, 2]\<rparr>) ! 0 = 0
   \<and> compute_fft (init_state\<lparr>data := [1, 3], timestamps := [0, 2]\<rparr>)
       = (init_state\<lparr>data := [1, 3], timestamps := [0, 2]\<rparr>, [PlotCurve [0] [4]], None)
   \<and> cmod (fft [1, 3] ! 0) = 4"
proof -
  let ?s = "init_state\<lparr>data := [1, 3], timestamps := [0, 2]\<rparr>"
  have len: "2 \<le> length (data ?s)" "2 \<le> length (timestamps ?s)"
    and T: "timestamps ?s ! 1 \<noteq> timestamps ?s ! 0"
    by (simp_all add: init_state_def)
  have dc: "fft [1, 3] ! 0 = 4"
    using fft_dc [of "[1, 3]"] by simp
  show ?thesis
    using compute_fft_spectrum [OF len T] len
    by (simp add: init_state_def dc)
qed

lemma cos_3pi_half: "cos (pi * 3 / 2) = 0"
proof -
  have "pi * 3 / 2 = 3 / 2 * pi" by simp
  then show ?thesis by (simp only: cos_3over2_pi)
qed

lemma sin_3pi_half: "sin (pi * 3 / 2) = - 1"
proof -
  have "pi * 3 / 2 = 3 / 2 * pi" by simp
  then show ?thesis by (simp only: sin_3over2_pi)
qed

lemma fft_four_ones: "take 2 (fft [1, 1, 1, 1]) = [4, 0]"
  by (simp add: fft_def upt_rec_numeral eval_nat_numeral complex_eq_iff cos_3pi_half sin_3pi_half)

lemma linspace_two: "linspace 0 (1 / 2) 2 = [0, 1 / 2]"
  by (simp add: linspace_def upt_rec_numeral eval_nat_numeral)

text \<open>
  C7 as stated fails at four values 1 taken one second apart. The sum is 4 and the
  bin at frequency zero is plotted as 2, twice the mean, not the mean 1. The two
  frequencies plotted are 0 and 1/2: they are 1/2 apart, not \<open>1 / (n T) = 1/4\<close>.
\<close>

theorem compute_fft_four_ones:
  "compute_fft (init_state\<lparr>data := [1, 1, 1, 1], timestamps := [0, 1, 2, 3]\<rparr>)
     = (init_state\<lparr>data := [1, 1, 1, 1], timestamps := [0, 1, 2, 3]\<rparr>, [PlotCurve [0, 1 / 2] [2, 0]], None)"
proof -
  have four: "Suc (Suc (Suc (Suc 0))) = 4" by simp
  show ?thesis
    by (simp add: compute_fft_def init_state_def Let_def four linspace_two fft_four_ones)
qed

section \<open>Export and import\<close>












section \<open>Timestamps and values stay aligned\<close>





end
